theory Spec2Isabelle
  imports Main
begin

section \<open>Data model\<close>

text \<open>
  The embedding follows \<^verbatim>\<open>src/main.go\<close>. Only the declarations that \<^verbatim>\<open>main.go\<close> uses are
  visible there; the struct types are reconstructed from the field accesses in that file.
  A Go \<^verbatim>\<open>string\<close> is a byte sequence and \<^verbatim>\<open>peerName[0]\<close> reads a byte, which is what a
  HOL \<open>char\<close> is. The file system is a map from path names to file contents.
\<close>

type_synonym path = string
type_synonym filesystem = "path \<rightharpoonup> string"

text \<open>The fields of \<^verbatim>\<open>peer\<close> that \<^verbatim>\<open>main.go\<close> reads or writes (lines 117-182).\<close>

record peer =
  ProtocolName :: string
  Asn :: nat
  Type :: string
  AsSet :: string
  ImportLimit4 :: nat
  ImportLimit6 :: nat
  NoPeeringDB :: bool
  QueryTime :: string
  PrefixSet4 :: "string list"
  PrefixSet6 :: "string list"

text \<open>
  \<^verbatim>\<open>globalConfig\<close>: \<^verbatim>\<open>Peers\<close> is a Go map from peer name to \<^verbatim>\<open>*peer\<close>. The list holds its
  entries in the order in which \<^verbatim>\<open>range\<close> happens to visit them; Go leaves that order
  unspecified, so every statement below is made for an arbitrary list. A value of the
  map is a pointer: \<open>None\<close> is the nil pointer, \<open>Some p\<close> points to the record \<open>p\<close>.
\<close>

record config =
  BirdDirectory :: string
  BirdSocket :: string
  Peers :: "(string \<times> peer option) list"

record cliFlags =
  ConfigFile :: string
  DryRun :: bool
  Verbose :: bool
  ShowVersion :: bool
  NoConfigure :: bool

text \<open>What the registry answers for an ASN (\<^verbatim>\<open>peeringDbData\<close>, lines 127-159).\<close>

record peeringDbData =
  MaxPfx4 :: nat
  MaxPfx6 :: nat
  PdbAsSet :: string

text \<open>
  How the process ends: \<^verbatim>\<open>main\<close> returns, \<^verbatim>\<open>os.Exit(n)\<close>, \<^verbatim>\<open>log.Fatal\<close> (the message is
  logged and the process exits with status 1), or a run-time panic: an index out of
  range, or the dereference of a nil pointer.
\<close>

datatype panic = IndexOutOfRange | NilDereference

datatype status = Returned | Exit nat | Fatal string | Panic panic

text \<open>
  Everything \<^verbatim>\<open>main\<close> calls that is not defined in \<^verbatim>\<open>main.go\<close>: the flag parser, the
  loaders, the sanitizer, the template engine, the path and file-system calls of the Go
  library, and the registry client. Each is a parameter of the model. An error is the text
  of the Go \<^verbatim>\<open>error\<close>. \<^verbatim>\<open>loadConfig\<close> returns a pointer to the configuration, which
  the type allows to be nil.
\<close>

record world =
  ParseArgs :: "string list \<Rightarrow> string + cliFlags"
  loadTemplates :: "string option"
  loadConfig :: "string \<Rightarrow> string + config option"
  sanitize :: "string \<Rightarrow> string"
  ExecuteGlobal :: "config \<Rightarrow> string \<times> string option"
  Join :: "string \<Rightarrow> string \<Rightarrow> string"
  Glob :: "string \<Rightarrow> filesystem \<Rightarrow> string + path list"
  ReadErr :: "path \<Rightarrow> filesystem \<Rightarrow> string option"
  CreateErr :: "path \<Rightarrow> filesystem \<Rightarrow> string option"
  RemoveErr :: "path \<Rightarrow> filesystem \<Rightarrow> string option"
  getPeeringDbData :: "nat \<Rightarrow> peeringDbData"

text \<open>What is left when the process has ended: its status, the disk, the peers in memory.\<close>

record outcome =
  status :: status
  disk :: filesystem
  graph :: "(string \<times> peer option) list"

section \<open>Library calls\<close>

text \<open>\<^verbatim>\<open>strings.Contains(s, sub)\<close>.\<close>

primrec strings_Contains :: "string \<Rightarrow> string \<Rightarrow> bool" where
  "strings_Contains [] sub = (sub = [])"
| "strings_Contains (c # s) sub =
     (take (length sub) (c # s) = sub \<or> strings_Contains s sub)"

text \<open>
  \<^verbatim>\<open>unicode.IsDigit(rune(b))\<close> for a byte \<open>b\<close>: the rune is below 256, and in that range
  \<^verbatim>\<open>IsDigit\<close> is the test \<^verbatim>\<open>'0' <= r && r <= '9'\<close>.
\<close>

definition IsDigit :: "char \<Rightarrow> bool" where
  "IsDigit b = (48 \<le> (of_char b :: nat) \<and> (of_char b :: nat) \<le> 57)"

text \<open>\<^verbatim>\<open>os.Create\<close>: the file is created empty, or truncated if it exists.\<close>

definition os_Create :: "world \<Rightarrow> path \<Rightarrow> filesystem \<Rightarrow> string + filesystem" where
  "os_Create w p fs =
     (case CreateErr w p fs of
        Some e \<Rightarrow> Inl e
      | None \<Rightarrow> Inr (fs(p \<mapsto> [])))"

text \<open>
  \<^verbatim>\<open>globalTemplate.ExecuteTemplate(globalFile, "global.tmpl", globalConfig)\<close>: the engine
  writes into the open file as it goes; what it wrote before an error stays in the file.
\<close>

definition ExecuteTemplate :: "world \<Rightarrow> path \<Rightarrow> config \<Rightarrow> filesystem \<Rightarrow> filesystem \<times> string option" where
  "ExecuteTemplate w p cfg fs =
     (case ExecuteGlobal w cfg of
        (written, err) \<Rightarrow>
          (fs(p \<mapsto> (case fs p of None \<Rightarrow> [] | Some old \<Rightarrow> old) @ written), err))"

text \<open>\<^verbatim>\<open>os.Remove\<close>: removing a file that does not exist is an error.\<close>

definition os_Remove :: "world \<Rightarrow> path \<Rightarrow> filesystem \<Rightarrow> string + filesystem" where
  "os_Remove w f fs =
     (case fs f of
        None \<Rightarrow> Inl (''remove '' @ f @ '': no such file or directory'')
      | Some _ \<Rightarrow>
          (case RemoveErr w f fs of
             Some e \<Rightarrow> Inl e
           | None \<Rightarrow> Inr (fs(f := None))))"

section \<open>The program\<close>

text \<open>\<^verbatim>\<open>ioutil.ReadFile\<close>: the contents of the file, or an error.\<close>

definition ReadFile :: "world \<Rightarrow> path \<Rightarrow> filesystem \<Rightarrow> string + string" where
  "ReadFile w p fs =
     (case ReadErr w p fs of
        Some e \<Rightarrow> Inl e
      | None \<Rightarrow>
          (case fs p of
             None \<Rightarrow> Inl (''open '' @ p @ '': no such file or directory'')
           | Some contents \<Rightarrow> Inr contents))"

text \<open>
  Lines 39-79: flags, templates, the configuration file. Nothing is written. Lines 49-52
  and the log calls set the log level and print; they are not part of the outcome.
\<close>

definition startup :: "world \<Rightarrow> string list \<Rightarrow> filesystem \<Rightarrow> status + (cliFlags \<times> config option)" where
  "startup w args fs =
     (case ParseArgs w args of
        Inl err \<Rightarrow>
          (if \<not> strings_Contains err ''Usage'' then Inl (Fatal err) else Inl (Exit 1))
      | Inr fl \<Rightarrow>
          if ShowVersion fl then Inl (Exit 0)
          else
            (case loadTemplates w of
               Some err \<Rightarrow> Inl (Fatal err)
             | None \<Rightarrow>
                 (case ReadFile w (ConfigFile fl) fs of
                    Inl err \<Rightarrow> Inl (Fatal (''reading config file: '' @ err))
                  | Inr configFile \<Rightarrow>
                      (case loadConfig w configFile of
                         Inl err \<Rightarrow> Inl (Fatal err)
                       | Inr globalConfig \<Rightarrow> Inr (fl, globalConfig)))))"

text \<open>Lines 103-107: the loop that removes the files the glob returned.\<close>

fun remove_old :: "world \<Rightarrow> path list \<Rightarrow> filesystem \<Rightarrow> string option \<times> filesystem" where
  "remove_old w [] fs = (None, fs)"
| "remove_old w (f # files) fs =
     (case os_Remove w f fs of
        Inl err \<Rightarrow> (Some err, fs)
      | Inr fs' \<Rightarrow> remove_old w files fs')"

text \<open>
  Lines 82-107, the branch taken when \<^verbatim>\<open>DryRun\<close> is off. The result is the fatal status,
  if the branch ended the process, and the disk it leaves. The glob is made in
  \<^verbatim>\<open>BirdSocket\<close>, as line 99 has it.
\<close>

definition write_global :: "world \<Rightarrow> config \<Rightarrow> filesystem \<Rightarrow> status option \<times> filesystem" where
  "write_global w globalConfig fs =
     (let globalFile = Join w (BirdDirectory globalConfig) ''bird.conf'' in
      case os_Create w globalFile fs of
        Inl err \<Rightarrow> (Some (Fatal (''Create global BIRD output file: '' @ err)), fs)
      | Inr fs1 \<Rightarrow>
          (case ExecuteTemplate w globalFile globalConfig fs1 of
             (fs2, Some err) \<Rightarrow> (Some (Fatal (''Execute global template: '' @ err)), fs2)
           | (fs2, None) \<Rightarrow>
               (case Glob w (Join w (BirdSocket globalConfig) ''AS*.conf'') fs2 of
                  Inl err \<Rightarrow> (Some (Fatal err), fs2)
                | Inr files \<Rightarrow>
                    (case remove_old w files fs2 of
                       (Some err, fs3) \<Rightarrow>
                         (Some (Fatal (''Removing old config files: '' @ err)), fs3)
                     | (None, fs3) \<Rightarrow> (None, fs3)))))"

text \<open>
  Lines 115-120: the name given to \<^verbatim>\<open>peerData.ProtocolName\<close>. \<^verbatim>\<open>peerName[0]\<close> panics on
  the empty string.
\<close>

definition protocolName :: "(string \<Rightarrow> string) \<Rightarrow> string \<Rightarrow> panic + string" where
  "protocolName san peerName =
     (case peerName of
        [] \<Rightarrow> Inl IndexOutOfRange
      | b # _ \<Rightarrow>
          if IsDigit b then Inr (''PEER_'' @ san peerName)
          else Inr (san peerName))"

text \<open>
  Lines 113-222: the loop over the peers. Its body sets \<^verbatim>\<open>ProtocolName\<close> and logs a line;
  the rest of the body is commented out. \<^verbatim>\<open>peerName[0]\<close> is read first (line 115); the
  assignment to \<^verbatim>\<open>peerData.ProtocolName\<close> (lines 117 and 119) then goes through the
  pointer and panics when it is nil. A panic ends the loop with the remaining peers
  untouched.
\<close>

fun iterate_peers :: "(string \<Rightarrow> string) \<Rightarrow> (string \<times> peer option) list \<Rightarrow> status \<times> (string \<times> peer option) list" where
  "iterate_peers san [] = (Returned, [])"
| "iterate_peers san ((peerName, peerData) # rest) =
     (case protocolName san peerName of
        Inl p \<Rightarrow> (Panic p, (peerName, peerData) # rest)
      | Inr name \<Rightarrow>
          (case peerData of
             None \<Rightarrow> (Panic NilDereference, (peerName, peerData) # rest)
           | Some pd \<Rightarrow>
               (case iterate_peers san rest of
                  (st, rest') \<Rightarrow>
                    (st, (peerName, Some (pd\<lparr>ProtocolName := name\<rparr>)) # rest'))))"

text \<open>
  \<^verbatim>\<open>main\<close>, lines 38-223. Log lines are not part of the outcome. With a nil
  \<^verbatim>\<open>globalConfig\<close> the first field access panics (line 84, or line 113 in a dry run),
  before any file operation.
\<close>

definition main :: "world \<Rightarrow> string list \<Rightarrow> filesystem \<Rightarrow> outcome" where
  "main w args fs =
     (case startup w args fs of
        Inl st \<Rightarrow> \<lparr>status = st, disk = fs, graph = []\<rparr>
      | Inr (fl, None) \<Rightarrow> \<lparr>status = Panic NilDereference, disk = fs, graph = []\<rparr>
      | Inr (fl, Some globalConfig) \<Rightarrow>
          (case (if \<not> DryRun fl then write_global w globalConfig fs else (None, fs)) of
             (Some st, fs') \<Rightarrow> \<lparr>status = st, disk = fs', graph = Peers globalConfig\<rparr>
           | (None, fs') \<Rightarrow>
               (case iterate_peers (sanitize w) (Peers globalConfig) of
                  (st, peers) \<Rightarrow> \<lparr>status = st, disk = fs', graph = peers\<rparr>)))"

section \<open>A concrete world\<close>

text \<open>
  Modelled from the spec: \<^verbatim>\<open>sanitize\<close> is called on lines 117 and 119 and is not defined in
  \<^verbatim>\<open>main.go\<close>. The specification (4.1) says that sanitization "maps/strips any character
  not valid in the target identifier grammar"; this instance strips every byte that is
  not an ASCII letter, a digit or an underscore. The statements about \<^verbatim>\<open>main\<close> below hold
  for every sanitizer; this one serves where a concrete run is evaluated.
\<close>

definition ident_char :: "char \<Rightarrow> bool" where
  "ident_char b =
     (IsDigit b \<or> (65 \<le> (of_char b :: nat) \<and> (of_char b :: nat) \<le> 90)
      \<or> (97 \<le> (of_char b :: nat) \<and> (of_char b :: nat) \<le> 122) \<or> b = CHR ''_'')"

definition sanitize_spec :: "string \<Rightarrow> string" where
  "sanitize_spec s = filter ident_char s"

text \<open>
  One installation: the flag parser answers \<open>fl\<close>, the configuration file declares
  the peers \<open>peers\<close>, the template engine answers \<open>rendered\<close>, the registry knows a
  prefix limit of 500 and the AS-SET \<^verbatim>\<open>RIPE::AS-FOO\<close> for every ASN, and no file-system
  call fails for a reason of its own. \<open>clean_join\<close> is \<^verbatim>\<open>path.Join\<close> on a directory name
  that is clean already, but for a trailing slash.
\<close>

definition demo_peer :: peer where
  "demo_peer =
     \<lparr>ProtocolName = [], Asn = 65000, Type = ''peer'', AsSet = [],
      ImportLimit4 = 0, ImportLimit6 = 0, NoPeeringDB = False, QueryTime = [],
      PrefixSet4 = [], PrefixSet6 = []\<rparr>"

definition demo_config :: "(string \<times> peer option) list \<Rightarrow> config" where
  "demo_config peers =
     \<lparr>BirdDirectory = ''/etc/bird'', BirdSocket = ''/run/bird'', Peers = peers\<rparr>"

definition demo_flags :: "bool \<Rightarrow> cliFlags" where
  "demo_flags dry =
     \<lparr>ConfigFile = ''/etc/wireframe.yml'', DryRun = dry,
      Verbose = False, ShowVersion = False, NoConfigure = False\<rparr>"

definition clean_join :: "string \<Rightarrow> string \<Rightarrow> string" where
  "clean_join dir file =
     (if dir = [] then file
      else if last dir = CHR ''/'' then dir @ file
      else dir @ ''/'' @ file)"

definition demo_world :: "cliFlags \<Rightarrow> (string \<times> peer option) list \<Rightarrow> string \<times> string option \<Rightarrow> world" where
  "demo_world fl peers rendered =
     \<lparr>ParseArgs = (\<lambda>args. Inr fl),
      loadTemplates = None,
      loadConfig = (\<lambda>configFile. Inr (Some (demo_config peers))),
      sanitize = sanitize_spec,
      ExecuteGlobal = (\<lambda>globalConfig. rendered),
      Join = clean_join,
      Glob = (\<lambda>pattern fs.
         if pattern = ''/run/bird/AS*.conf''
         then Inr (filter (\<lambda>f. fs f \<noteq> None) [''/run/bird/AS64999_GONE.conf''])
         else Inr []),
      ReadErr = (\<lambda>p fs. None),
      CreateErr = (\<lambda>p fs. None),
      RemoveErr = (\<lambda>f fs. None),
      getPeeringDbData = (\<lambda>asn. \<lparr>MaxPfx4 = 500, MaxPfx6 = 500, PdbAsSet = ''RIPE::AS-FOO''\<rparr>)\<rparr>"

definition demo_disk :: filesystem where
  "demo_disk =
     [''/etc/wireframe.yml'' \<mapsto> ''peers: ...'',
      ''/etc/bird/bird.conf'' \<mapsto> ''old global config'',
      ''/run/bird/AS64999_GONE.conf'' \<mapsto> ''stale'']"

section \<open>Comparing peers\<close>

text \<open>
  A map entry with its \<^verbatim>\<open>ProtocolName\<close> blanked: two entries that agree after
  \<open>erase\<close> agree on the name, on being nil or not, and on every field but
  \<^verbatim>\<open>ProtocolName\<close>.
\<close>

definition erase :: "string \<times> peer option \<Rightarrow> string \<times> peer option" where
  "erase entry = (fst entry, map_option (\<lambda>p. p\<lparr>ProtocolName := []\<rparr>) (snd entry))"

section \<open>The shape of a run\<close>

lemma main_startup_failed:
  "startup w args fs = Inl st \<Longrightarrow> main w args fs = \<lparr>status = st, disk = fs, graph = []\<rparr>"
  by (simp add: main_def)

lemma main_nil_config:
  "startup w args fs = Inr (fl, None) \<Longrightarrow>
   main w args fs = \<lparr>status = Panic NilDereference, disk = fs, graph = []\<rparr>"
  by (simp add: main_def)

lemma disk_main:
  "startup w args fs = Inr (fl, Some cfg) \<Longrightarrow>
   disk (main w args fs) = (if DryRun fl then fs else snd (write_global w cfg fs))"
  by (simp add: main_def split: prod.splits option.splits)

lemma status_main:
  "startup w args fs = Inr (fl, Some cfg) \<Longrightarrow>
   status (main w args fs) =
     (case (if DryRun fl then None else fst (write_global w cfg fs)) of
        Some st \<Rightarrow> st
      | None \<Rightarrow> fst (iterate_peers (sanitize w) (Peers cfg)))"
  by (simp add: main_def split: prod.splits option.splits)

lemma graph_main:
  "startup w args fs = Inr (fl, Some cfg) \<Longrightarrow>
   graph (main w args fs) =
     (case (if DryRun fl then None else fst (write_global w cfg fs)) of
        Some st \<Rightarrow> Peers cfg
      | None \<Rightarrow> snd (iterate_peers (sanitize w) (Peers cfg)))"
  by (simp add: main_def split: prod.splits option.splits)

lemma startup_flags:
  "ParseArgs w args = Inr fl \<Longrightarrow> startup w args fs = Inr (fl', cfg) \<Longrightarrow> fl' = fl"
  by (auto simp: startup_def split: if_splits option.splits sum.splits)

subsection \<open>The name on lines 115-120\<close>

lemma protocolName_empty: "protocolName san [] = Inl IndexOutOfRange"
  by (simp add: protocolName_def)

lemma protocolName_digit:
  "IsDigit b \<Longrightarrow> protocolName san (b # bs) = Inr (''PEER_'' @ san (b # bs))"
  by (simp add: protocolName_def)

lemma protocolName_other:
  "\<not> IsDigit b \<Longrightarrow> protocolName san (b # bs) = Inr (san (b # bs))"
  by (simp add: protocolName_def)

lemma protocolName_nonempty:
  "peerName \<noteq> [] \<Longrightarrow> \<exists>name. protocolName san peerName = Inr name"
  by (cases peerName) (simp_all add: protocolName_def)

subsection \<open>The loop over the peers\<close>

lemma iterate_peers_returned:
  "[] \<notin> fst ` set peers \<Longrightarrow> None \<notin> snd ` set peers \<Longrightarrow>
   fst (iterate_peers san peers) = Returned"
proof (induction peers)
  case Nil
  show ?case by simp
next
  case (Cons entry peers)
  obtain peerName peerData where e: "entry = (peerName, peerData)" by (cases entry)
  from Cons.prems e obtain pd where pd: "peerData = Some pd" by (cases peerData) auto
  from Cons.prems e have "peerName \<noteq> []" by auto
  then obtain name where n: "protocolName san peerName = Inr name"
    using protocolName_nonempty by blast
  from Cons.prems have "[] \<notin> fst ` set peers" "None \<notin> snd ` set peers" by auto
  with Cons.IH have "fst (iterate_peers san peers) = Returned" by blast
  with e pd n show ?case by (cases "iterate_peers san peers") simp
qed

lemma iterate_peers_panics:
  "[] \<in> fst ` set peers \<Longrightarrow> \<exists>p. fst (iterate_peers san peers) = Panic p"
proof (induction peers)
  case Nil
  then show ?case by simp
next
  case (Cons entry peers)
  obtain peerName peerData where e: "entry = (peerName, peerData)" by (cases entry)
  show ?case
  proof (cases "protocolName san peerName")
    case (Inl p)
    with e show ?thesis by simp
  next
    case (Inr name)
    then have "peerName \<noteq> []" by (auto simp: protocolName_empty)
    with Cons.prems e have "[] \<in> fst ` set peers" by auto
    with Cons.IH obtain p where p: "fst (iterate_peers san peers) = Panic p" by blast
    with e Inr show ?thesis
      by (cases peerData; cases "iterate_peers san peers") simp_all
  qed
qed

lemma iterate_peers_index_panic:
  "[] \<in> fst ` set peers \<Longrightarrow> None \<notin> snd ` set peers \<Longrightarrow>
   fst (iterate_peers san peers) = Panic IndexOutOfRange"
proof (induction peers)
  case Nil
  then show ?case by simp
next
  case (Cons entry peers)
  obtain peerName peerData where e: "entry = (peerName, peerData)" by (cases entry)
  from Cons.prems e obtain pd where pd: "peerData = Some pd" by (cases peerData) auto
  show ?case
  proof (cases peerName)
    case Nil
    with e show ?thesis by (simp add: protocolName_empty)
  next
    case (Cons b bs)
    then obtain name where n: "protocolName san peerName = Inr name"
      using protocolName_nonempty [of peerName san] by auto
    from Cons Cons.prems e have "[] \<in> fst ` set peers" "None \<notin> snd ` set peers" by auto
    with Cons.IH have "fst (iterate_peers san peers) = Panic IndexOutOfRange" by blast
    with e pd n show ?thesis by (cases "iterate_peers san peers") simp
  qed
qed

lemma iterate_peers_nil_entry:
  "peerName \<noteq> [] \<Longrightarrow>
   iterate_peers san ((peerName, None) # rest) = (Panic NilDereference, (peerName, None) # rest)"
  using protocolName_nonempty [of peerName san] by auto

lemma iterate_peers_erase:
  "map erase (snd (iterate_peers san peers)) = map erase peers"
proof (induction peers)
  case Nil
  show ?case by simp
next
  case (Cons entry peers)
  obtain peerName peerData where e: "entry = (peerName, peerData)" by (cases entry)
  with Cons.IH show ?case
    by (cases "iterate_peers san peers")
      (auto simp: erase_def split: sum.splits option.splits)
qed

lemma graph_main_erase:
  assumes "startup w args fs = Inr (fl, Some cfg)"
  shows "map erase (graph (main w args fs)) = map erase (Peers cfg)"
  using graph_main [OF assms] by (simp add: iterate_peers_erase split: option.splits)

lemma map_through_erase:
  assumes "\<And>entry. f (erase entry) = f entry"
    and "map erase xs = map erase ys"
  shows "map f xs = map f ys"
proof -
  have "map f xs = map f (map erase xs)" by (simp add: assms(1))
  also have "\<dots> = map f (map erase ys)" by (simp only: assms(2))
  also have "\<dots> = map f ys" by (simp add: assms(1))
  finally show ?thesis .
qed

subsection \<open>The global file and the sweep\<close>

lemma os_Remove_Inr: "os_Remove w f fs = Inr fs' \<Longrightarrow> fs' = fs(f := None)"
  by (simp add: os_Remove_def split: option.splits)

lemma remove_old_frame:
  "remove_old w files fs = (err, fs') \<Longrightarrow> fs' p = fs p \<or> fs' p = None"
proof (induction files arbitrary: fs)
  case Nil
  then show ?case by simp
next
  case (Cons f files)
  show ?case
  proof (cases "os_Remove w f fs")
    case (Inl e)
    with Cons.prems show ?thesis by simp
  next
    case (Inr fs1)
    then have fs1: "fs1 = fs(f := None)" by (rule os_Remove_Inr)
    from Cons.prems Inr have "remove_old w files fs1 = (err, fs')" by simp
    from Cons.IH [OF this] fs1 show ?thesis by (auto split: if_splits)
  qed
qed

lemma remove_old_keeps:
  "remove_old w files fs = (err, fs') \<Longrightarrow> p \<notin> set files \<Longrightarrow> fs' p = fs p"
proof (induction files arbitrary: fs)
  case Nil
  then show ?case by simp
next
  case (Cons f files)
  show ?case
  proof (cases "os_Remove w f fs")
    case (Inl e)
    with Cons.prems show ?thesis by simp
  next
    case (Inr fs1)
    then have fs1: "fs1 = fs(f := None)" by (rule os_Remove_Inr)
    from Cons.prems Inr have "remove_old w files fs1 = (err, fs')" by simp
    moreover from Cons.prems have "p \<notin> set files" "p \<noteq> f" by auto
    ultimately show ?thesis using Cons.IH fs1 by simp
  qed
qed

lemma write_global_None:
  assumes "write_global w cfg fs = (None, fs')"
  shows "\<exists>files.
     Glob w (Join w (BirdSocket cfg) ''AS*.conf'')
       (fs(Join w (BirdDirectory cfg) ''bird.conf'' \<mapsto> fst (ExecuteGlobal w cfg))) = Inr files
     \<and> remove_old w files
       (fs(Join w (BirdDirectory cfg) ''bird.conf'' \<mapsto> fst (ExecuteGlobal w cfg))) = (None, fs')"
  using assms
  by (auto simp: write_global_def os_Create_def ExecuteTemplate_def Let_def
      split: option.splits sum.splits prod.splits)

lemma write_global_frame:
  assumes "write_global w cfg fs = (None, fs')"
  shows "fs' p = (fs(Join w (BirdDirectory cfg) ''bird.conf'' \<mapsto> fst (ExecuteGlobal w cfg))) p
         \<or> fs' p = None"
proof -
  from write_global_None [OF assms] obtain files where
    "remove_old w files
       (fs(Join w (BirdDirectory cfg) ''bird.conf'' \<mapsto> fst (ExecuteGlobal w cfg))) = (None, fs')"
    by blast
  from remove_old_frame [OF this] show ?thesis .
qed

lemma write_global_other_paths:
  assumes "p \<noteq> Join w (BirdDirectory cfg) ''bird.conf''"
  shows "snd (write_global w cfg fs) p = fs p \<or> snd (write_global w cfg fs) p = None"
proof -
  let ?g = "Join w (BirdDirectory cfg) ''bird.conf''"
  show ?thesis
  proof (cases "os_Create w ?g fs")
    case (Inl e)
    then show ?thesis by (simp add: write_global_def)
  next
    case (Inr fs1)
    then have fs1: "fs1 = fs(?g \<mapsto> [])"
      by (simp add: os_Create_def split: option.splits)
    obtain written err where x: "ExecuteGlobal w cfg = (written, err)"
      by (cases "ExecuteGlobal w cfg")
    let ?fs2 = "fs(?g \<mapsto> written)"
    have e: "ExecuteTemplate w ?g cfg fs1 = (?fs2, err)"
      by (simp add: ExecuteTemplate_def x fs1)
    have two: "?fs2 p = fs p" using assms by simp
    show ?thesis
    proof (cases err)
      case (Some m)
      with Inr e two show ?thesis by (simp add: write_global_def)
    next
      case None
      show ?thesis
      proof (cases "Glob w (Join w (BirdSocket cfg) ''AS*.conf'') ?fs2")
        case (Inl m)
        with Inr e None two show ?thesis by (simp add: write_global_def)
      next
        case (Inr files)
        obtain r fs3 where r: "remove_old w files ?fs2 = (r, fs3)"
          by (cases "remove_old w files ?fs2")
        from remove_old_frame [OF r, of p] two have "fs3 p = fs p \<or> fs3 p = None" by simp
        moreover have "snd (write_global w cfg fs) = fs3"
          using \<open>os_Create w ?g fs = Inr fs1\<close> e None Inr r
          by (simp add: write_global_def split: option.splits)
        ultimately show ?thesis by simp
      qed
    qed
  qed
qed

lemma write_global_status:
  "fst (write_global w cfg fs) = Some st \<Longrightarrow> \<exists>msg. st = Fatal msg"
  by (auto simp: write_global_def Let_def split: sum.splits prod.splits option.splits)

lemma main_returned_global:
  assumes "startup w args fs = Inr (fl, Some cfg)" and "\<not> DryRun fl"
    and "status (main w args fs) = Returned"
  shows "fst (write_global w cfg fs) = None"
proof (cases "fst (write_global w cfg fs)")
  case None
  then show ?thesis .
next
  case (Some st)
  with status_main [OF assms(1)] assms(2) have "status (main w args fs) = st" by simp
  moreover from Some obtain msg where "st = Fatal msg" using write_global_status by blast
  ultimately show ?thesis using assms(3) by simp
qed

lemma write_global_render_failure:
  assumes "CreateErr w (Join w (BirdDirectory cfg) ''bird.conf'') fs = None"
    and "ExecuteGlobal w cfg = (written, Some err)"
  shows "write_global w cfg fs =
     (Some (Fatal (''Execute global template: '' @ err)),
      fs(Join w (BirdDirectory cfg) ''bird.conf'' \<mapsto> written))"
  using assms by (simp add: write_global_def os_Create_def ExecuteTemplate_def)

subsection \<open>The concrete world, evaluated\<close>

lemma startup_demo_any:
  "\<not> ShowVersion fl \<Longrightarrow> demo_disk (ConfigFile fl) = Some contents \<Longrightarrow>
   startup (demo_world fl peers rendered) args demo_disk = Inr (fl, Some (demo_config peers))"
  by (simp add: startup_def ReadFile_def demo_world_def)

lemma startup_demo:
  "startup (demo_world (demo_flags dry) peers rendered) args demo_disk
     = Inr (demo_flags dry, Some (demo_config peers))"
  by (rule startup_demo_any [of _ "''peers: ...''"]) (simp_all add: demo_flags_def demo_disk_def)

lemma ParseArgs_demo: "ParseArgs (demo_world fl peers rendered) args = Inr fl"
  by (simp add: demo_world_def)

lemma sanitize_demo: "sanitize (demo_world fl peers rendered) = sanitize_spec"
  by (simp add: demo_world_def)

lemma Peers_demo: "Peers (demo_config peers) = peers"
  by (simp add: demo_config_def)

lemma DryRun_demo: "DryRun (demo_flags dry) = dry"
  by (simp add: demo_flags_def)

lemma bird_conf_demo:
  "Join (demo_world fl peers rendered) (BirdDirectory (demo_config peers)) ''bird.conf''
     = ''/etc/bird/bird.conf''"
  by (simp add: demo_world_def demo_config_def clean_join_def)

lemma write_global_demo:
  "write_global (demo_world fl peers (written, None)) (demo_config peers) demo_disk =
     (None, (demo_disk(''/etc/bird/bird.conf'' \<mapsto> written))
              (''/run/bird/AS64999_GONE.conf'' := None))"
  by (simp add: write_global_def demo_world_def demo_config_def demo_disk_def os_Create_def
      ExecuteTemplate_def os_Remove_def clean_join_def)

lemma write_global_demo_failure:
  "write_global (demo_world fl peers (written, Some err)) (demo_config peers) demo_disk =
     (Some (Fatal (''Execute global template: '' @ err)),
      demo_disk(''/etc/bird/bird.conf'' \<mapsto> written))"
  by (simp add: write_global_def demo_world_def demo_config_def os_Create_def
      ExecuteTemplate_def clean_join_def)

lemma protocolName_example: "protocolName sanitize_spec ''example'' = Inr ''example''"
  by (simp add: protocolName_def sanitize_spec_def ident_char_def IsDigit_def)

lemma iterate_peers_demo:
  "iterate_peers sanitize_spec [(''example'', Some p)] =
     (Returned, [(''example'', Some (p\<lparr>ProtocolName := ''example''\<rparr>))])"
  by (simp add: protocolName_example)

lemma status_main_demo:
  "status (main (demo_world (demo_flags False) [(''example'', Some p)] (written, None))
     [''wireframe''] demo_disk) = Returned"
  using status_main [OF startup_demo, of False "[(''example'', Some p)]" "(written, None)"
      "[''wireframe'']"]
  by (simp add: DryRun_demo write_global_demo sanitize_demo Peers_demo iterate_peers_demo
      del: iterate_peers.simps)

lemma graph_main_demo:
  "graph (main (demo_world (demo_flags False) [(''example'', Some p)] (written, None))
     [''wireframe''] demo_disk) = [(''example'', Some (p\<lparr>ProtocolName := ''example''\<rparr>))]"
  using graph_main [OF startup_demo, of False "[(''example'', Some p)]" "(written, None)"
      "[''wireframe'']"]
  by (simp add: DryRun_demo write_global_demo sanitize_demo Peers_demo iterate_peers_demo
      del: iterate_peers.simps)

lemma disk_main_demo:
  "disk (main (demo_world (demo_flags False) peers (written, None)) [''wireframe''] demo_disk)
     = (demo_disk(''/etc/bird/bird.conf'' \<mapsto> written))(''/run/bird/AS64999_GONE.conf'' := None)"
  using disk_main [OF startup_demo, of False peers "(written, None)" "[''wireframe'']"]
  by (simp add: DryRun_demo write_global_demo)

section \<open>The claims\<close>

text \<open>
  C1, as the code has it. After a run that writes (no dry run) and returns, the disk
  holds the rendered global configuration in \<^verbatim>\<open>bird.conf\<close>, and no file for any peer has
  been written: every other path holds what it held before the run, or nothing, the
  sweep of old files having removed it. The block that would write one file per peer
  (lines 180-197) is commented out. The glob of line 99 asks for names of the form
  \<^verbatim>\<open>AS*.conf\<close>, which \<^verbatim>\<open>bird.conf\<close> is not: that it does not return the path of
  \<^verbatim>\<open>bird.conf\<close> is the one thing assumed of the library.
\<close>

theorem reconcile_writes_only_global_file:
  assumes "startup w args fs = Inr (fl, Some cfg)" and "\<not> DryRun fl"
    and "status (main w args fs) = Returned"
    and "\<And>disk' files. Glob w (Join w (BirdSocket cfg) ''AS*.conf'') disk' = Inr files \<Longrightarrow>
           Join w (BirdDirectory cfg) ''bird.conf'' \<notin> set files"
  shows "disk (main w args fs) (Join w (BirdDirectory cfg) ''bird.conf'')
           = Some (fst (ExecuteGlobal w cfg))
         \<and> (\<forall>p. p \<noteq> Join w (BirdDirectory cfg) ''bird.conf'' \<longrightarrow>
               disk (main w args fs) p = fs p \<or> disk (main w args fs) p = None)"
proof -
  let ?g = "Join w (BirdDirectory cfg) ''bird.conf''"
  let ?fs2 = "fs(?g \<mapsto> fst (ExecuteGlobal w cfg))"
  from main_returned_global [OF assms(1-3)]
  have wg: "write_global w cfg fs = (None, snd (write_global w cfg fs))"
    by (simp add: prod_eq_iff)
  from disk_main [OF assms(1)] assms(2)
  have d: "disk (main w args fs) = snd (write_global w cfg fs)" by simp
  from write_global_None [OF wg] obtain files where
    g: "Glob w (Join w (BirdSocket cfg) ''AS*.conf'') ?fs2 = Inr files"
    and r: "remove_old w files ?fs2 = (None, snd (write_global w cfg fs))"
    by blast
  from assms(4) [OF g] have "?g \<notin> set files" .
  from remove_old_keeps [OF r this] d
  have one: "disk (main w args fs) ?g = Some (fst (ExecuteGlobal w cfg))" by simp
  have two: "disk (main w args fs) p = fs p \<or> disk (main w args fs) p = None"
    if "p \<noteq> ?g" for p
    using write_global_frame [OF wg, of p] d that by simp
  from one two show ?thesis by blast
qed

text \<open>
  C1 as amended, at the concrete world: \<^verbatim>\<open>bird.conf\<close> holds the rendered text, and the
  file a peer's artifact would have is absent.
\<close>

theorem reconcile_writes_only_global_file_witness:
  "startup (demo_world (demo_flags False) [(''example'', Some demo_peer)] (''router id 192.0.2.1;'', None))
     [''wireframe''] demo_disk
     = Inr (demo_flags False, Some (demo_config [(''example'', Some demo_peer)]))
   \<and> \<not> DryRun (demo_flags False)
   \<and> status (main (demo_world (demo_flags False) [(''example'', Some demo_peer)] (''router id 192.0.2.1;'', None))
        [''wireframe''] demo_disk) = Returned
   \<and> disk (main (demo_world (demo_flags False) [(''example'', Some demo_peer)] (''router id 192.0.2.1;'', None))
        [''wireframe''] demo_disk) ''/etc/bird/bird.conf'' = Some ''router id 192.0.2.1;''
   \<and> disk (main (demo_world (demo_flags False) [(''example'', Some demo_peer)] (''router id 192.0.2.1;'', None))
        [''wireframe''] demo_disk) ''/etc/bird/AS65000_example.conf'' = None"
proof -
  let ?peers = "[(''example'', Some demo_peer)]"
  let ?w = "demo_world (demo_flags False) ?peers (''router id 192.0.2.1;'', None)"
  let ?cfg = "demo_config ?peers"
  have s: "startup ?w [''wireframe''] demo_disk = Inr (demo_flags False, Some ?cfg)"
    by (rule startup_demo)
  have d: "\<not> DryRun (demo_flags False)" by (simp add: DryRun_demo)
  have r: "status (main ?w [''wireframe''] demo_disk) = Returned" by (rule status_main_demo)
  have j: "Join ?w (BirdDirectory ?cfg) ''bird.conf'' = ''/etc/bird/bird.conf''"
    by (rule bird_conf_demo)
  have g: "Join ?w (BirdDirectory ?cfg) ''bird.conf'' \<notin> set files"
    if "Glob ?w (Join ?w (BirdSocket ?cfg) ''AS*.conf'') disk' = Inr files" for disk' files
    using that unfolding j
    by (auto simp: demo_world_def demo_config_def clean_join_def split: if_splits)
  have x: "fst (ExecuteGlobal ?w ?cfg) = ''router id 192.0.2.1;''"
    by (simp add: demo_world_def)
  have n: "demo_disk ''/etc/bird/AS65000_example.conf'' = None" by (simp add: demo_disk_def)
  from reconcile_writes_only_global_file [OF s d r g]
  have "disk (main ?w [''wireframe''] demo_disk) ''/etc/bird/bird.conf'' = Some ''router id 192.0.2.1;''
      \<and> (disk (main ?w [''wireframe''] demo_disk) ''/etc/bird/AS65000_example.conf''
            = demo_disk ''/etc/bird/AS65000_example.conf''
          \<or> disk (main ?w [''wireframe''] demo_disk) ''/etc/bird/AS65000_example.conf'' = None)"
    unfolding j x by simp
  with n s d r show ?thesis by simp
qed

text \<open>
  C1 as stated fails: a run with one declared peer writes and returns, and afterwards
  the disk holds the configuration file and \<^verbatim>\<open>bird.conf\<close> and nothing else, so no file
  for the peer.
\<close>

theorem reconcile_counterexample:
  "\<not> DryRun (demo_flags False)
   \<and> status (main (demo_world (demo_flags False) [(''example'', Some demo_peer)] (''router id 192.0.2.1;'', None))
        [''wireframe''] demo_disk) = Returned
   \<and> map fst (graph (main (demo_world (demo_flags False) [(''example'', Some demo_peer)] (''router id 192.0.2.1;'', None))
        [''wireframe''] demo_disk)) = [''example'']
   \<and> dom (disk (main (demo_world (demo_flags False) [(''example'', Some demo_peer)] (''router id 192.0.2.1;'', None))
        [''wireframe''] demo_disk)) = {''/etc/wireframe.yml'', ''/etc/bird/bird.conf''}"
proof -
  have "dom ((demo_disk(''/etc/bird/bird.conf'' \<mapsto> ''router id 192.0.2.1;''))
               (''/run/bird/AS64999_GONE.conf'' := None))
        = {''/etc/wireframe.yml'', ''/etc/bird/bird.conf''}"
    by (auto simp: demo_disk_def split: if_splits)
  then show ?thesis
    by (simp add: DryRun_demo status_main_demo graph_main_demo disk_main_demo)
qed

text \<open>
  C2. A dry run changes nothing on disk: whatever the arguments, the world and the disk,
  when the parsed flags have \<^verbatim>\<open>DryRun\<close> set the disk after \<^verbatim>\<open>main\<close> is the disk before it.
  The loop over the peers still runs: when the configuration loads, the peers in memory
  are the ones the loop leaves.
\<close>

theorem dry_run_leaves_disk:
  assumes "ParseArgs w args = Inr fl" and "DryRun fl"
  shows "disk (main w args fs) = fs \<and>
         (\<forall>cfg. startup w args fs = Inr (fl, Some cfg) \<longrightarrow>
            graph (main w args fs) = snd (iterate_peers (sanitize w) (Peers cfg)))"
proof (cases "startup w args fs")
  case (Inl st)
  then show ?thesis by (simp add: main_startup_failed)
next
  case (Inr r)
  obtain fl' c where r: "r = (fl', c)" by (cases r)
  with Inr assms(1) startup_flags have fl: "fl' = fl" by blast
  show ?thesis
  proof (cases c)
    case None
    with Inr r show ?thesis by (simp add: main_nil_config)
  next
    case (Some cfg)
    with Inr r fl assms(2) show ?thesis by (simp add: disk_main graph_main)
  qed
qed

text \<open>C2, at a dry run of the concrete world with one peer.\<close>

theorem dry_run_leaves_disk_witness:
  "ParseArgs (demo_world (demo_flags True) [(''example'', Some demo_peer)] (''router id 192.0.2.1;'', None))
     [''wireframe'', ''--dry-run''] = Inr (demo_flags True)
   \<and> DryRun (demo_flags True)
   \<and> disk (main (demo_world (demo_flags True) [(''example'', Some demo_peer)] (''router id 192.0.2.1;'', None))
        [''wireframe'', ''--dry-run''] demo_disk) = demo_disk
   \<and> graph (main (demo_world (demo_flags True) [(''example'', Some demo_peer)] (''router id 192.0.2.1;'', None))
        [''wireframe'', ''--dry-run''] demo_disk)
      = [(''example'', Some (demo_peer\<lparr>ProtocolName := ''example''\<rparr>))]"
proof -
  let ?w = "demo_world (demo_flags True) [(''example'', Some demo_peer)] (''router id 192.0.2.1;'', None)"
  let ?args = "[''wireframe'', ''--dry-run'']"
  have p: "ParseArgs ?w ?args = Inr (demo_flags True)" by (rule ParseArgs_demo)
  have d: "DryRun (demo_flags True)" by (simp add: DryRun_demo)
  from dry_run_leaves_disk [OF p d, of demo_disk] p d show ?thesis
    by (simp add: startup_demo sanitize_demo Peers_demo iterate_peers_demo
        del: iterate_peers.simps)
qed

text \<open>
  C3, as the code has it. When the template engine fails on the global template, the
  run ends in \<^verbatim>\<open>log.Fatalf\<close>; the file \<^verbatim>\<open>bird.conf\<close> was created or truncated before the
  engine ran and the engine wrote into it, so afterwards it holds exactly what the engine
  wrote before it failed, and no other path has changed. There is no scratch buffer and
  no temporary file.
\<close>

theorem render_failure_leaves_partial_file:
  assumes "startup w args fs = Inr (fl, Some cfg)" and "\<not> DryRun fl"
    and "CreateErr w (Join w (BirdDirectory cfg) ''bird.conf'') fs = None"
    and "ExecuteGlobal w cfg = (written, Some err)"
  shows "status (main w args fs) = Fatal (''Execute global template: '' @ err) \<and>
         disk (main w args fs) = fs(Join w (BirdDirectory cfg) ''bird.conf'' \<mapsto> written)"
  using status_main [OF assms(1)] disk_main [OF assms(1)] assms(2)
    write_global_render_failure [OF assms(3,4)]
  by simp

text \<open>C3 as amended, at a run whose template fails after writing nine bytes.\<close>

theorem render_failure_leaves_partial_file_witness:
  "startup (demo_world (demo_flags False) [(''example'', Some demo_peer)] (''router id'', Some ''missing field''))
     [''wireframe''] demo_disk
     = Inr (demo_flags False, Some (demo_config [(''example'', Some demo_peer)]))
   \<and> \<not> DryRun (demo_flags False)
   \<and> CreateErr (demo_world (demo_flags False) [(''example'', Some demo_peer)] (''router id'', Some ''missing field''))
        ''/etc/bird/bird.conf'' demo_disk = None
   \<and> ExecuteGlobal (demo_world (demo_flags False) [(''example'', Some demo_peer)] (''router id'', Some ''missing field''))
        (demo_config [(''example'', Some demo_peer)]) = (''router id'', Some ''missing field'')
   \<and> status (main (demo_world (demo_flags False) [(''example'', Some demo_peer)] (''router id'', Some ''missing field''))
        [''wireframe''] demo_disk) = Fatal ''Execute global template: missing field''
   \<and> disk (main (demo_world (demo_flags False) [(''example'', Some demo_peer)] (''router id'', Some ''missing field''))
        [''wireframe''] demo_disk) = demo_disk(''/etc/bird/bird.conf'' \<mapsto> ''router id'')"
proof -
  let ?w = "demo_world (demo_flags False) [(''example'', Some demo_peer)] (''router id'', Some ''missing field'')"
  let ?cfg = "demo_config [(''example'', Some demo_peer)]"
  have s: "startup ?w [''wireframe''] demo_disk = Inr (demo_flags False, Some ?cfg)"
    by (rule startup_demo)
  have d: "\<not> DryRun (demo_flags False)" by (simp add: DryRun_demo)
  have j: "Join ?w (BirdDirectory ?cfg) ''bird.conf'' = ''/etc/bird/bird.conf''"
    by (rule bird_conf_demo)
  have c: "CreateErr ?w (Join ?w (BirdDirectory ?cfg) ''bird.conf'') demo_disk = None"
    by (simp add: demo_world_def)
  have e: "ExecuteGlobal ?w ?cfg = (''router id'', Some ''missing field'')"
    by (simp add: demo_world_def)
  from render_failure_leaves_partial_file [OF s d c e] s d c e j show ?thesis by simp
qed

text \<open>
  C3 as stated fails: the template fails, and \<^verbatim>\<open>bird.conf\<close>, which held an earlier
  configuration, is left holding the nine bytes written before the failure: neither
  absent nor in its prior state.
\<close>

theorem render_failure_counterexample:
  "snd (ExecuteGlobal (demo_world (demo_flags False) [(''example'', Some demo_peer)] (''router id'', Some ''missing field''))
        (demo_config [(''example'', Some demo_peer)])) = Some ''missing field''
   \<and> demo_disk ''/etc/bird/bird.conf'' = Some ''old global config''
   \<and> disk (main (demo_world (demo_flags False) [(''example'', Some demo_peer)] (''router id'', Some ''missing field''))
        [''wireframe''] demo_disk) ''/etc/bird/bird.conf'' = Some ''router id''"
proof -
  let ?w = "demo_world (demo_flags False) [(''example'', Some demo_peer)] (''router id'', Some ''missing field'')"
  have "disk (main ?w [''wireframe''] demo_disk) = demo_disk(''/etc/bird/bird.conf'' \<mapsto> ''router id'')"
    using disk_main [OF startup_demo, of False "[(''example'', Some demo_peer)]"
        "(''router id'', Some ''missing field'')" "[''wireframe'']"]
    by (simp add: DryRun_demo write_global_demo_failure)
  then show ?thesis by (simp add: demo_world_def demo_disk_def)
qed

text \<open>
  C4, as the code has it. The check of the AS-SET (lines 172-175) is commented out: a
  peer of any session type with any AS-SET, the empty one included, does not end the
  run. Once the configuration has loaded and the global phase has not ended the process,
  a run over peers that have non-empty names and are not nil returns, whatever their
  session types and AS-SETs, and it writes no artifact for any peer: the disk is the one
  the global phase left.
\<close>

theorem empty_as_set_not_checked:
  assumes "startup w args fs = Inr (fl, Some cfg)"
    and "DryRun fl \<or> fst (write_global w cfg fs) = None"
    and "[] \<notin> fst ` set (Peers cfg)"
    and "None \<notin> snd ` set (Peers cfg)"
  shows "status (main w args fs) = Returned \<and>
         disk (main w args fs) = (if DryRun fl then fs else snd (write_global w cfg fs))"
proof -
  from assms(2) have "(if DryRun fl then None else fst (write_global w cfg fs)) = None"
    by auto
  with status_main [OF assms(1)] iterate_peers_returned [OF assms(3,4)] disk_main [OF assms(1)]
  show ?thesis by simp
qed

text \<open>C4 as amended, at a peer of type \<^verbatim>\<open>peer\<close> whose AS-SET is empty.\<close>

theorem empty_as_set_not_checked_witness:
  "startup (demo_world (demo_flags False) [(''example'', Some demo_peer)] (''router id 192.0.2.1;'', None))
     [''wireframe''] demo_disk
     = Inr (demo_flags False, Some (demo_config [(''example'', Some demo_peer)]))
   \<and> fst (write_global (demo_world (demo_flags False) [(''example'', Some demo_peer)] (''router id 192.0.2.1;'', None))
         (demo_config [(''example'', Some demo_peer)]) demo_disk) = None
   \<and> [] \<notin> fst ` set (Peers (demo_config [(''example'', Some demo_peer)]))
   \<and> None \<notin> snd ` set (Peers (demo_config [(''example'', Some demo_peer)]))
   \<and> Type demo_peer = ''peer'' \<and> AsSet demo_peer = []
   \<and> status (main (demo_world (demo_flags False) [(''example'', Some demo_peer)] (''router id 192.0.2.1;'', None))
        [''wireframe''] demo_disk) = Returned"
proof -
  let ?peers = "[(''example'', Some demo_peer)]"
  let ?w = "demo_world (demo_flags False) ?peers (''router id 192.0.2.1;'', None)"
  have s: "startup ?w [''wireframe''] demo_disk = Inr (demo_flags False, Some (demo_config ?peers))"
    by (rule startup_demo)
  have g: "fst (write_global ?w (demo_config ?peers) demo_disk) = None"
    by (simp add: write_global_demo)
  then have g': "DryRun (demo_flags False)
      \<or> fst (write_global ?w (demo_config ?peers) demo_disk) = None"
    by simp
  have e: "[] \<notin> fst ` set (Peers (demo_config ?peers))"
    by (simp add: Peers_demo)
  have n: "None \<notin> snd ` set (Peers (demo_config ?peers))"
    by (simp add: Peers_demo)
  have t: "Type demo_peer = ''peer'' \<and> AsSet demo_peer = []"
    by (simp add: demo_peer_def)
  from empty_as_set_not_checked [OF s g' e n] s g e n t show ?thesis by simp
qed

text \<open>
  C4 as stated fails: the one peer is of type \<^verbatim>\<open>peer\<close>, is not opted out of enrichment
  and has an empty AS-SET, and the run returns normally, with the AS-SET still empty.
\<close>

theorem empty_as_set_counterexample:
  "Type demo_peer = ''peer'' \<and> AsSet demo_peer = []
   \<and> status (main (demo_world (demo_flags False) [(''example'', Some demo_peer)] (''router id 192.0.2.1;'', None))
        [''wireframe''] demo_disk) = Returned
   \<and> map (\<lambda>entry. map_option AsSet (snd entry))
        (graph (main (demo_world (demo_flags False) [(''example'', Some demo_peer)] (''router id 192.0.2.1;'', None))
           [''wireframe''] demo_disk)) = [Some []]"
  by (simp add: status_main_demo graph_main_demo) (simp add: demo_peer_def)

text \<open>
  C5, as the code has it. The enrichment from the registry (lines 124-170) is commented
  out: the run never changes an import limit. A limit the operator set stays as set,
  and an unset (zero) limit stays zero, whatever the registry holds.
\<close>

theorem import_limits_never_changed:
  assumes "startup w args fs = Inr (fl, Some cfg)"
  shows "map (\<lambda>entry. (fst entry, map_option ImportLimit4 (snd entry),
                          map_option ImportLimit6 (snd entry)))
           (graph (main w args fs))
         = map (\<lambda>entry. (fst entry, map_option ImportLimit4 (snd entry),
                            map_option ImportLimit6 (snd entry)))
             (Peers cfg)"
  by (rule map_through_erase [OF _ graph_main_erase [OF assms]])
    (simp add: erase_def option.map_comp comp_def)

text \<open>C5 as amended, at a peer with an explicit IPv4 limit of 200 and a registry value of 500.\<close>

theorem import_limits_never_changed_witness:
  "startup (demo_world (demo_flags False) [(''example'', Some (demo_peer\<lparr>ImportLimit4 := 200\<rparr>))]
       (''router id 192.0.2.1;'', None))
     [''wireframe''] demo_disk
     = Inr (demo_flags False,
            Some (demo_config [(''example'', Some (demo_peer\<lparr>ImportLimit4 := 200\<rparr>))]))
   \<and> map (\<lambda>entry. (fst entry, map_option ImportLimit4 (snd entry),
                       map_option ImportLimit6 (snd entry)))
        (graph (main
           (demo_world (demo_flags False) [(''example'', Some (demo_peer\<lparr>ImportLimit4 := 200\<rparr>))]
              (''router id 192.0.2.1;'', None))
           [''wireframe''] demo_disk))
      = [(''example'', Some 200, Some 0)]"
proof -
  let ?peers = "[(''example'', Some (demo_peer\<lparr>ImportLimit4 := 200\<rparr>))]"
  let ?w = "demo_world (demo_flags False) ?peers (''router id 192.0.2.1;'', None)"
  have s: "startup ?w [''wireframe''] demo_disk = Inr (demo_flags False, Some (demo_config ?peers))"
    by (rule startup_demo)
  from import_limits_never_changed [OF s] s show ?thesis
    by (simp add: Peers_demo demo_peer_def)
qed

text \<open>
  C5 as stated fails: the peer is not opted out, its IPv4 limit is unset, the registry
  holds 500 for its ASN, and after the run the limit is still zero.
\<close>

theorem import_limit_counterexample:
  "NoPeeringDB demo_peer = False \<and> ImportLimit4 demo_peer = 0
   \<and> MaxPfx4 (getPeeringDbData
        (demo_world (demo_flags False) [(''example'', Some demo_peer)] (''router id 192.0.2.1;'', None))
        (Asn demo_peer)) = 500
   \<and> map (\<lambda>entry. map_option ImportLimit4 (snd entry))
        (graph (main (demo_world (demo_flags False) [(''example'', Some demo_peer)] (''router id 192.0.2.1;'', None))
           [''wireframe''] demo_disk)) = [Some 0]"
  by (simp add: graph_main_demo) (simp add: demo_peer_def demo_world_def)

text \<open>
  C6, as the code has it. The resolution of the AS-SET from the registry (lines 139-163)
  is commented out: the run never changes an AS-SET. A manually configured AS-SET stays
  as configured, and an empty one stays empty: nothing is taken from the registry and
  no \<^verbatim>\<open>AS<asn>\<close> is synthesized.
\<close>

theorem as_set_never_changed:
  assumes "startup w args fs = Inr (fl, Some cfg)"
  shows "map (\<lambda>entry. (fst entry, map_option AsSet (snd entry))) (graph (main w args fs))
         = map (\<lambda>entry. (fst entry, map_option AsSet (snd entry))) (Peers cfg)"
  by (rule map_through_erase [OF _ graph_main_erase [OF assms]])
    (simp add: erase_def option.map_comp comp_def)

text \<open>C6 as amended, at a peer with a manually configured AS-SET.\<close>

theorem as_set_never_changed_witness:
  "startup (demo_world (demo_flags False) [(''example'', Some (demo_peer\<lparr>AsSet := ''AS-MANUAL''\<rparr>))]
       (''router id 192.0.2.1;'', None))
     [''wireframe''] demo_disk
     = Inr (demo_flags False,
            Some (demo_config [(''example'', Some (demo_peer\<lparr>AsSet := ''AS-MANUAL''\<rparr>))]))
   \<and> map (\<lambda>entry. (fst entry, map_option AsSet (snd entry)))
        (graph (main
           (demo_world (demo_flags False) [(''example'', Some (demo_peer\<lparr>AsSet := ''AS-MANUAL''\<rparr>))]
              (''router id 192.0.2.1;'', None))
           [''wireframe''] demo_disk))
      = [(''example'', Some ''AS-MANUAL'')]"
proof -
  let ?peers = "[(''example'', Some (demo_peer\<lparr>AsSet := ''AS-MANUAL''\<rparr>))]"
  let ?w = "demo_world (demo_flags False) ?peers (''router id 192.0.2.1;'', None)"
  have s: "startup ?w [''wireframe''] demo_disk = Inr (demo_flags False, Some (demo_config ?peers))"
    by (rule startup_demo)
  from as_set_never_changed [OF s] s show ?thesis
    by (simp add: Peers_demo)
qed

text \<open>
  C6 as stated fails: the peer has no manual AS-SET, the registry holds
  \<^verbatim>\<open>RIPE::AS-FOO\<close> for its ASN, and after the run the AS-SET is still empty, not
  \<^verbatim>\<open>AS-FOO\<close>.
\<close>

theorem as_set_counterexample:
  "NoPeeringDB demo_peer = False \<and> AsSet demo_peer = []
   \<and> PdbAsSet (getPeeringDbData
        (demo_world (demo_flags False) [(''example'', Some demo_peer)] (''router id 192.0.2.1;'', None))
        (Asn demo_peer)) = ''RIPE::AS-FOO''
   \<and> map (\<lambda>entry. map_option AsSet (snd entry))
        (graph (main (demo_world (demo_flags False) [(''example'', Some demo_peer)] (''router id 192.0.2.1;'', None))
           [''wireframe''] demo_disk)) = [Some []]"
  by (simp add: graph_main_demo) (simp add: demo_peer_def demo_world_def)

text \<open>
  C7, at the input where the code departs from it. A digit-led name gets the prefix
  (\<^verbatim>\<open>100foo\<close> becomes \<^verbatim>\<open>PEER_100foo\<close> under the stripping sanitizer), but the empty name
  gets no \<^verbatim>\<open>ProtocolName\<close> at all: \<^verbatim>\<open>peerName[0]\<close> panics, the run ends there and the
  field is left blank.
\<close>

theorem protocol_name_missing_for_empty_name:
  "protocolName sanitize_spec ''100foo'' = Inr ''PEER_100foo''
   \<and> protocolName sanitize_spec [] = Inl IndexOutOfRange
   \<and> status (main (demo_world (demo_flags True) [([], Some demo_peer)] (''router id 192.0.2.1;'', None))
        [''wireframe'', ''--dry-run''] demo_disk) = Panic IndexOutOfRange
   \<and> map (\<lambda>entry. map_option ProtocolName (snd entry))
        (graph (main (demo_world (demo_flags True) [([], Some demo_peer)] (''router id 192.0.2.1;'', None))
           [''wireframe'', ''--dry-run''] demo_disk)) = [Some []]"
proof -
  let ?w = "demo_world (demo_flags True) [([], Some demo_peer)] (''router id 192.0.2.1;'', None)"
  let ?args = "[''wireframe'', ''--dry-run'']"
  have s: "startup ?w ?args demo_disk
      = Inr (demo_flags True, Some (demo_config [([], Some demo_peer)]))"
    by (rule startup_demo)
  have a: "protocolName sanitize_spec ''100foo'' = Inr ''PEER_100foo''"
    by (simp add: protocolName_def sanitize_spec_def ident_char_def IsDigit_def)
  have b: "status (main ?w ?args demo_disk) = Panic IndexOutOfRange"
    using status_main [OF s] by (simp add: DryRun_demo Peers_demo protocolName_empty)
  have c: "graph (main ?w ?args demo_disk) = [([], Some demo_peer)]"
    using graph_main [OF s] by (simp add: DryRun_demo Peers_demo protocolName_empty)
  from a b c show ?thesis by (simp add: protocolName_empty demo_peer_def)
qed

text \<open>
  C8, at the input where the code departs from it. Whatever the sanitizer, the
  normalization of lines 115-120 returns no token for the empty name, so there is no
  token that normalizing it yields and that normalizing again leaves fixed.
\<close>

theorem normalize_not_idempotent_at_empty_name:
  "\<not> (\<exists>token. protocolName san [] = Inr token \<and> protocolName san token = Inr token)"
  by (simp add: protocolName_empty)

text \<open>
  C9. A configuration whose peer map has the empty string as a name makes the loop
  panic: \<^verbatim>\<open>peerName[0]\<close> is read with no check that the name is non-empty. Once the
  configuration has loaded and the global phase has not ended the process, the run ends
  in a panic, in whatever order the map is visited and whatever the sanitizer: in the
  index panic, unless the map also holds a nil peer (whose dereference may come first).
\<close>

theorem empty_peer_name_panics:
  assumes "startup w args fs = Inr (fl, Some cfg)"
    and "DryRun fl \<or> fst (write_global w cfg fs) = None"
    and "[] \<in> fst ` set (Peers cfg)"
  shows "protocolName (sanitize w) [] = Inl IndexOutOfRange \<and>
         (\<exists>p. status (main w args fs) = Panic p) \<and>
         (None \<notin> snd ` set (Peers cfg) \<longrightarrow> status (main w args fs) = Panic IndexOutOfRange)"
proof -
  from assms(2) have "(if DryRun fl then None else fst (write_global w cfg fs)) = None"
    by auto
  with status_main [OF assms(1)]
  have s: "status (main w args fs) = fst (iterate_peers (sanitize w) (Peers cfg))" by simp
  from iterate_peers_panics [OF assms(3)] s
  have "\<exists>p. status (main w args fs) = Panic p" by simp
  moreover have "status (main w args fs) = Panic IndexOutOfRange"
    if "None \<notin> snd ` set (Peers cfg)"
    using iterate_peers_index_panic [OF assms(3) that] s by simp
  ultimately show ?thesis by (simp add: protocolName_empty)
qed

text \<open>C9, at a run that writes the global file and then meets the empty name second.\<close>

theorem empty_peer_name_panics_witness:
  "startup (demo_world (demo_flags False) [(''example'', Some demo_peer), ([], Some demo_peer)]
       (''router id 192.0.2.1;'', None))
     [''wireframe''] demo_disk
     = Inr (demo_flags False,
            Some (demo_config [(''example'', Some demo_peer), ([], Some demo_peer)]))
   \<and> fst (write_global
         (demo_world (demo_flags False) [(''example'', Some demo_peer), ([], Some demo_peer)]
            (''router id 192.0.2.1;'', None))
         (demo_config [(''example'', Some demo_peer), ([], Some demo_peer)]) demo_disk) = None
   \<and> [] \<in> fst ` set (Peers (demo_config [(''example'', Some demo_peer), ([], Some demo_peer)]))
   \<and> None \<notin> snd ` set (Peers (demo_config [(''example'', Some demo_peer), ([], Some demo_peer)]))
   \<and> status (main
         (demo_world (demo_flags False) [(''example'', Some demo_peer), ([], Some demo_peer)]
            (''router id 192.0.2.1;'', None))
         [''wireframe''] demo_disk) = Panic IndexOutOfRange"
proof -
  let ?peers = "[(''example'', Some demo_peer), ([], Some demo_peer)]"
  let ?w = "demo_world (demo_flags False) ?peers (''router id 192.0.2.1;'', None)"
  have s: "startup ?w [''wireframe''] demo_disk = Inr (demo_flags False, Some (demo_config ?peers))"
    by (rule startup_demo)
  have g: "fst (write_global ?w (demo_config ?peers) demo_disk) = None"
    by (simp add: write_global_demo)
  then have g': "DryRun (demo_flags False) \<or> fst (write_global ?w (demo_config ?peers) demo_disk) = None"
    by simp
  have e: "[] \<in> fst ` set (Peers (demo_config ?peers))"
    by (simp add: Peers_demo)
  have n: "None \<notin> snd ` set (Peers (demo_config ?peers))"
    by (simp add: Peers_demo)
  from empty_peer_name_panics [OF s g' e] s g e n show ?thesis by simp
qed

text \<open>
  C10, as the code has it. The run changes a peer in memory in its \<^verbatim>\<open>ProtocolName\<close>
  only: with that field blanked, the peers after the run are the peers the configuration
  declared, name by name and field by field. The loop over the peers writes no file: the
  disk after the run is the disk the global phase left (the disk before the run, in a
  dry run). The global phase does not alter the contents of the configuration file
  either, unless that file is the \<^verbatim>\<open>bird.conf\<close> it writes: a configuration file under
  any other path holds afterwards what it held before, or is gone, removed by the sweep
  of old files.
\<close>

theorem only_protocol_name_mutated:
  assumes "startup w args fs = Inr (fl, Some cfg)"
  shows "map erase (graph (main w args fs)) = map erase (Peers cfg) \<and>
         disk (main w args fs) = (if DryRun fl then fs else snd (write_global w cfg fs)) \<and>
         (ConfigFile fl \<noteq> Join w (BirdDirectory cfg) ''bird.conf'' \<longrightarrow>
            disk (main w args fs) (ConfigFile fl) = fs (ConfigFile fl)
            \<or> disk (main w args fs) (ConfigFile fl) = None)"
proof -
  have "disk (main w args fs) (ConfigFile fl) = fs (ConfigFile fl)
        \<or> disk (main w args fs) (ConfigFile fl) = None"
    if "ConfigFile fl \<noteq> Join w (BirdDirectory cfg) ''bird.conf''"
    using write_global_other_paths [OF that, of fs] disk_main [OF assms] by auto
  with graph_main_erase [OF assms] disk_main [OF assms] show ?thesis by simp
qed

text \<open>C10 as amended, at a run of the concrete world that writes the global file.\<close>

theorem only_protocol_name_mutated_witness:
  "startup (demo_world (demo_flags False) [(''example'', Some demo_peer)] (''router id 192.0.2.1;'', None))
     [''wireframe''] demo_disk
     = Inr (demo_flags False, Some (demo_config [(''example'', Some demo_peer)]))
   \<and> ConfigFile (demo_flags False)
       \<noteq> Join (demo_world (demo_flags False) [(''example'', Some demo_peer)] (''router id 192.0.2.1;'', None))
           (BirdDirectory (demo_config [(''example'', Some demo_peer)])) ''bird.conf''
   \<and> map erase (graph (main (demo_world (demo_flags False) [(''example'', Some demo_peer)] (''router id 192.0.2.1;'', None))
        [''wireframe''] demo_disk)) = [(''example'', Some demo_peer)]
   \<and> disk (main (demo_world (demo_flags False) [(''example'', Some demo_peer)] (''router id 192.0.2.1;'', None))
        [''wireframe''] demo_disk) ''/etc/wireframe.yml'' = Some ''peers: ...''"
proof -
  let ?peers = "[(''example'', Some demo_peer)]"
  let ?w = "demo_world (demo_flags False) ?peers (''router id 192.0.2.1;'', None)"
  have s: "startup ?w [''wireframe''] demo_disk
      = Inr (demo_flags False, Some (demo_config ?peers))"
    by (rule startup_demo)
  have e: "erase (''example'', Some demo_peer) = (''example'', Some demo_peer)"
    by (simp add: erase_def demo_peer_def)
  have c: "ConfigFile (demo_flags False) \<noteq> Join ?w (BirdDirectory (demo_config ?peers)) ''bird.conf''"
    by (simp add: bird_conf_demo demo_flags_def)
  from only_protocol_name_mutated [OF s] e
  have "map erase (graph (main ?w [''wireframe''] demo_disk)) = [(''example'', Some demo_peer)] \<and>
        disk (main ?w [''wireframe''] demo_disk)
          = (demo_disk(''/etc/bird/bird.conf'' \<mapsto> ''router id 192.0.2.1;''))
              (''/run/bird/AS64999_GONE.conf'' := None)"
    by (simp add: Peers_demo DryRun_demo write_global_demo)
  with s c show ?thesis by (simp add: demo_disk_def)
qed

text \<open>
  C10 as stated fails in its last part: when the configuration is read from the path
  the global file is written to, the run overwrites the file it read. Here the
  configuration file is \<^verbatim>\<open>/etc/bird/bird.conf\<close>; it loads, the run returns, and the file
  holds the rendered global configuration instead of what was read.
\<close>

theorem input_file_overwritten_counterexample:
  "ConfigFile ((demo_flags False)\<lparr>ConfigFile := ''/etc/bird/bird.conf''\<rparr>) = ''/etc/bird/bird.conf''
   \<and> startup (demo_world ((demo_flags False)\<lparr>ConfigFile := ''/etc/bird/bird.conf''\<rparr>)
         [(''example'', Some demo_peer)] (''router id 192.0.2.1;'', None))
       [''wireframe''] demo_disk
      = Inr ((demo_flags False)\<lparr>ConfigFile := ''/etc/bird/bird.conf''\<rparr>,
             Some (demo_config [(''example'', Some demo_peer)]))
   \<and> demo_disk ''/etc/bird/bird.conf'' = Some ''old global config''
   \<and> status (main (demo_world ((demo_flags False)\<lparr>ConfigFile := ''/etc/bird/bird.conf''\<rparr>)
         [(''example'', Some demo_peer)] (''router id 192.0.2.1;'', None))
       [''wireframe''] demo_disk) = Returned
   \<and> disk (main (demo_world ((demo_flags False)\<lparr>ConfigFile := ''/etc/bird/bird.conf''\<rparr>)
         [(''example'', Some demo_peer)] (''router id 192.0.2.1;'', None))
       [''wireframe''] demo_disk) ''/etc/bird/bird.conf'' = Some ''router id 192.0.2.1;''"
proof -
  let ?fl = "(demo_flags False)\<lparr>ConfigFile := ''/etc/bird/bird.conf''\<rparr>"
  let ?peers = "[(''example'', Some demo_peer)]"
  let ?w = "demo_world ?fl ?peers (''router id 192.0.2.1;'', None)"
  have o: "demo_disk ''/etc/bird/bird.conf'' = Some ''old global config''"
    by (simp add: demo_disk_def)
  have s: "startup ?w [''wireframe''] demo_disk = Inr (?fl, Some (demo_config ?peers))"
    by (rule startup_demo_any [of _ "''old global config''"]) (simp_all add: demo_flags_def o)
  have d: "\<not> DryRun ?fl" by (simp add: demo_flags_def)
  have r: "status (main ?w [''wireframe''] demo_disk) = Returned"
    using status_main [OF s] d
    by (simp add: write_global_demo sanitize_demo Peers_demo iterate_peers_demo
        del: iterate_peers.simps)
  have k: "disk (main ?w [''wireframe''] demo_disk) ''/etc/bird/bird.conf''
      = Some ''router id 192.0.2.1;''"
    using disk_main [OF s] d by (simp add: write_global_demo)
  from o s r k show ?thesis by simp
qed

end
